theory Spec2Isabelle
  imports Main "HOL-Library.Sublist"
begin

section \<open>The constraint generator of \<^verbatim>\<open>src/fpga/fpgaboard.py\<close>\<close>

text \<open>
  The theory embeds \<^verbatim>\<open>fpga_board.generate_vivado_io(csv_data, connector_mappings)\<close>, a
  function of the class that takes no \<^verbatim>\<open>self\<close> and is called on the class.
  The function is read by the layout of its statements: everything from the docstring to
  \<^verbatim>\<open>return\<close> is the body (the docstring stands at the indentation of its \<^verbatim>\<open>def\<close>, so
  the file as it stands is refused by the Python parser); the two \<^verbatim>\<open>for\<close> loops own the
  statements indented under them; the \<^verbatim>\<open>if\<close>/\<^verbatim>\<open>else\<close> that looks the pin up and
  appends a block is indented at the level of the \<^verbatim>\<open>for\<close> loops, so it runs once, after
  the second loop.

  The file imports \<^verbatim>\<open>csv\<close> and \<^verbatim>\<open>os\<close> and never \<^verbatim>\<open>io\<close>, which line 22 reads in
  \<^verbatim>\<open>csv.reader(io.StringIO(csv_data))\<close>. Python looks a global name up when the statement
  runs: the call raises \<^verbatim>\<open>NameError\<close> there unless the name is bound by then. The model
  keeps both paths: \<open>io_bound\<close> says whether the namespace of the module binds \<^verbatim>\<open>io\<close> to
  the standard module at the call, and \<open>csv_reader\<close> gives the rows that the standard
  library's reader then yields for a text.
\<close>

subsection \<open>Data\<close>

text \<open>
  A value of the connector map: \<^verbatim>\<open>fpga_pin_info[0]\<close> is the FPGA pin, \<^verbatim>\<open>[1]\<close> the bank,
  \<^verbatim>\<open>[2]\<close> the pin description.
\<close>

type_synonym pin_info = "string \<times> string \<times> string"

text \<open>\<^verbatim>\<open>connector_mappings\<close>: a dict of dicts, connector to pin number to pin info.\<close>

type_synonym connector_map = "string \<rightharpoonup> (string \<rightharpoonup> pin_info)"

text \<open>The dict appended to \<^verbatim>\<open>io_mappings\<close> for a row, with its four keys.\<close>

record io_mapping =
  io_name :: string
  prodigy_connector :: string
  pin_no :: string
  io_voltage :: string

text \<open>
  Reading a global name that is bound nowhere raises \<^verbatim>\<open>NameError\<close>; reading a local
  variable that no statement has assigned yet raises \<^verbatim>\<open>UnboundLocalError\<close>. The argument
  is the name that was read.
\<close>

datatype error = NameError string | UnboundLocalError string

text \<open>
  The state of one call: the connector map the caller passed (a shared object, which the
  caller still holds after the call), the two lists the function builds, and its local
  variables, \<open>None\<close> while unassigned.
\<close>

record frame =
  connector_mappings :: connector_map
  io_mappings :: "io_mapping list"
  tcl_content :: "string list"
  var_io_name :: "string option"
  var_prodigy_connector :: "string option"
  var_pin_no :: "string option"
  var_io_voltage :: "string option"
  var_connector :: "string option"

subsection \<open>Strings\<close>

text \<open>\<^verbatim>\<open>sep.join(xs)\<close>.\<close>

fun join :: "string \<Rightarrow> string list \<Rightarrow> string" where
  "join sep [] = []"
| "join sep [x] = x"
| "join sep (x # y # ys) = x @ sep @ join sep (y # ys)"

text \<open>\<^verbatim>\<open>s.replace(old, new)\<close> for a pattern \<open>old\<close> of one character.\<close>

definition replace :: "char \<Rightarrow> string \<Rightarrow> string \<Rightarrow> string" where
  "replace old new s = concat (map (\<lambda>c. if c = old then new else [c]) s)"

subsection \<open>The first loop: rows to \<^verbatim>\<open>io_mappings\<close>\<close>

text \<open>
  \<^verbatim>\<open>if len(row) >= 4: io_name, prodigy_connector, pin_no, io_voltage = row[:4]\<close> and the
  \<^verbatim>\<open>append\<close> of the dict. The assignment binds four local variables of the function.
\<close>

definition mapping_of_row :: "string list \<Rightarrow> io_mapping" where
  "mapping_of_row row =
     \<lparr> io_name = row ! 0, prodigy_connector = row ! 1,
       pin_no = row ! 2, io_voltage = row ! 3 \<rparr>"

definition parse_row :: "string list \<Rightarrow> frame \<Rightarrow> frame" where
  "parse_row row s =
     (if 4 \<le> length row then
        s\<lparr> var_io_name := Some (row ! 0),
           var_prodigy_connector := Some (row ! 1),
           var_pin_no := Some (row ! 2),
           var_io_voltage := Some (row ! 3),
           io_mappings := io_mappings s @
             [mapping_of_row row] \<rparr>
      else s)"

fun parse_rows :: "string list list \<Rightarrow> frame \<Rightarrow> frame" where
  "parse_rows [] s = s"
| "parse_rows (row # rows) s = parse_rows rows (parse_row row s)"

subsection \<open>The second loop: the four assignments\<close>

definition bind_mapping :: "io_mapping \<Rightarrow> frame \<Rightarrow> frame" where
  "bind_mapping mapping s =
     s\<lparr> var_io_name := Some (io_name mapping),
        var_connector := Some (prodigy_connector mapping),
        var_pin_no := Some (pin_no mapping),
        var_io_voltage := Some (io_voltage mapping) \<rparr>"

fun bind_mappings :: "io_mapping list \<Rightarrow> frame \<Rightarrow> frame" where
  "bind_mappings [] s = s"
| "bind_mappings (mapping # rest) s = bind_mappings rest (bind_mapping mapping s)"

subsection \<open>The lookup and the block it appends\<close>

text \<open>The four lines appended when both keys are found.\<close>

definition resolved_lines ::
  "string \<Rightarrow> string \<Rightarrow> string \<Rightarrow> pin_info \<Rightarrow> string \<Rightarrow> string list" where
  "resolved_lines name connector pin fpga_pin_info voltage =
     (let fpga_pin = fst fpga_pin_info;
          bank = fst (snd fpga_pin_info);
          pin_desc = snd (snd fpga_pin_info)
      in [ ''# '' @ name @ '' - '' @ connector @ ''.'' @ pin @ '' - '' @ pin_desc
             @ '' ('' @ bank @ '')'',
           ''set_property PACKAGE_PIN '' @ fpga_pin @ '' [get_ports '' @ name @ '']'',
           ''set_property IOSTANDARD LVCMOS'' @ replace CHR ''V'' '''' voltage
             @ '' [get_ports '' @ name @ '']'',
           '''' ])"

text \<open>The two lines appended otherwise.\<close>

definition error_lines :: "string \<Rightarrow> string \<Rightarrow> string \<Rightarrow> string list" where
  "error_lines name connector pin =
     [ ''# ERROR: Could not find mapping for '' @ name @ '' on '' @ connector @ ''.'' @ pin,
       '''' ]"

text \<open>Reading a local variable, and sequencing with the error it may raise.\<close>

definition read_var :: "string \<Rightarrow> string option \<Rightarrow> error + string" where
  "read_var name v = (case v of None \<Rightarrow> Inl (UnboundLocalError name) | Some x \<Rightarrow> Inr x)"

definition and_then :: "error + 'a \<Rightarrow> ('a \<Rightarrow> error + 'b) \<Rightarrow> error + 'b" where
  "and_then r f = (case r of Inl e \<Rightarrow> Inl e | Inr x \<Rightarrow> f x)"

text \<open>The branch of the \<^verbatim>\<open>if\<close>: it reads the pin info and the four variables.\<close>

definition emit_resolved :: "pin_info \<Rightarrow> frame \<Rightarrow> error + frame" where
  "emit_resolved fpga_pin_info s =
     and_then (read_var ''io_name'' (var_io_name s)) (\<lambda>name.
     and_then (read_var ''connector'' (var_connector s)) (\<lambda>connector.
     and_then (read_var ''pin_no'' (var_pin_no s)) (\<lambda>pin.
     and_then (read_var ''io_voltage'' (var_io_voltage s)) (\<lambda>voltage.
       Inr (s\<lparr> tcl_content := tcl_content s
                  @ resolved_lines name connector pin fpga_pin_info voltage \<rparr>)))))"

text \<open>The branch of the \<^verbatim>\<open>else\<close>.\<close>

definition emit_error :: "frame \<Rightarrow> error + frame" where
  "emit_error s =
     and_then (read_var ''io_name'' (var_io_name s)) (\<lambda>name.
     and_then (read_var ''connector'' (var_connector s)) (\<lambda>connector.
     and_then (read_var ''pin_no'' (var_pin_no s)) (\<lambda>pin.
       Inr (s\<lparr> tcl_content := tcl_content s @ error_lines name connector pin \<rparr>))))"

text \<open>
  \<^verbatim>\<open>if connector in connector_mappings and pin_no in connector_mappings[connector]\<close>:
  \<^verbatim>\<open>connector\<close> is read first, \<^verbatim>\<open>pin_no\<close> only when the first test holds.
\<close>

definition lookup_and_emit :: "frame \<Rightarrow> error + frame" where
  "lookup_and_emit s =
     and_then (read_var ''connector'' (var_connector s)) (\<lambda>connector.
       case connector_mappings s connector of
         None \<Rightarrow> emit_error s
       | Some pins \<Rightarrow>
           and_then (read_var ''pin_no'' (var_pin_no s)) (\<lambda>pin.
             case pins pin of
               None \<Rightarrow> emit_error s
             | Some fpga_pin_info \<Rightarrow> emit_resolved fpga_pin_info s))"

subsection \<open>The function\<close>

definition header_lines :: "string list" where
  "header_lines =
     [ ''# Automatically generated Vivado constraints file'',
       ''# Generated from I/O mapping CSV data\<newline>'' ]"

definition new_frame :: "connector_map \<Rightarrow> frame" where
  "new_frame cm =
     \<lparr> connector_mappings = cm, io_mappings = [], tcl_content = [],
       var_io_name = None, var_prodigy_connector = None, var_pin_no = None,
       var_io_voltage = None, var_connector = None \<rparr>"

text \<open>
  The statements of the module are \<^verbatim>\<open>import csv\<close>, \<^verbatim>\<open>import os\<close> and the class: none
  binds \<^verbatim>\<open>io\<close>. This is the value of \<open>io_bound\<close> for the file as it stands, called with
  nothing outside the file having bound the name.
\<close>

definition module_binds_io :: bool where
  "module_binds_io = False"

text \<open>
  The result is what the call returns or raises, paired with the connector map as the
  call leaves it. Line 21 assigns the empty \<^verbatim>\<open>io_mappings\<close>; line 22 reads \<^verbatim>\<open>io\<close> and
  raises when it is unbound, before a row is read.
\<close>

definition generate_vivado_io ::
  "bool \<Rightarrow> (string \<Rightarrow> string list list) \<Rightarrow> string \<Rightarrow> connector_map
     \<Rightarrow> (error + string) \<times> connector_map" where
  "generate_vivado_io io_bound csv_reader csv_data cm =
     (let s0 = new_frame cm
      in if io_bound then
           (let s1 = parse_rows (csv_reader csv_data) s0;
                s2 = s1\<lparr> tcl_content := tcl_content s1 @ [header_lines ! 0] \<rparr>;
                s3 = s2\<lparr> tcl_content := tcl_content s2 @ [header_lines ! 1] \<rparr>;
                s4 = bind_mappings (io_mappings s3) s3
            in case lookup_and_emit s4 of
                 Inl e \<Rightarrow> (Inl e, connector_mappings s4)
               | Inr s5 \<Rightarrow> (Inr (join ''\<newline>'' (tcl_content s5)), connector_mappings s5))
         else (Inl (NameError ''io''), connector_mappings s0))"

subsection \<open>A reader for plain text\<close>

text \<open>
  On a text with no quote character and no carriage return, \<^verbatim>\<open>csv.reader\<close> yields one
  row per line, the fields of a line being the pieces between its commas, and the empty
  row for an empty line; a newline that ends the text starts no further row. The
  examples below read their texts with it.
\<close>

fun split_at :: "char \<Rightarrow> string \<Rightarrow> string list" where
  "split_at sep [] = [[]]"
| "split_at sep (c # cs) =
     (if c = sep then [] # split_at sep cs
      else (case split_at sep cs of
              [] \<Rightarrow> [[c]]
            | piece # pieces \<Rightarrow> (c # piece) # pieces))"

definition text_lines :: "string \<Rightarrow> string list" where
  "text_lines t =
     (let pieces = split_at CHR ''\<newline>'' t
      in if last pieces = [] then butlast pieces else pieces)"

definition plain_reader :: "string \<Rightarrow> string list list" where
  "plain_reader t = map (\<lambda>line. if line = [] then [] else split_at CHR '','' line) (text_lines t)"

text \<open>The connector map of the examples: connector J1 with two positions.\<close>

definition example_map :: connector_map where
  "example_map =
     [''J1'' \<mapsto> [''A1'' \<mapsto> (''AB12'', ''34'', ''Clock Input''),
                 ''A2'' \<mapsto> (''AC13'', ''34'', ''Data'')]]"

subsection \<open>Notions the statements use\<close>

text \<open>
  The block that the \<^verbatim>\<open>if\<close>/\<^verbatim>\<open>else\<close> appends when the four variables hold the
  fields of a row: the resolved lines when both keys are found, the error lines otherwise.
\<close>

definition block_lines :: "connector_map \<Rightarrow> string list \<Rightarrow> string list" where
  "block_lines cm row =
     (case cm (row ! 1) of
        None \<Rightarrow> error_lines (row ! 0) (row ! 1) (row ! 2)
      | Some pins \<Rightarrow>
          (case pins (row ! 2) of
             None \<Rightarrow> error_lines (row ! 0) (row ! 1) (row ! 2)
           | Some fpga_pin_info \<Rightarrow>
               resolved_lines (row ! 0) (row ! 1) (row ! 2) fpga_pin_info (row ! 3)))"

text \<open>The call returned a document, and the text occurs in it.\<close>

definition contains_text :: "string \<Rightarrow> error + string \<Rightarrow> bool" where
  "contains_text t r = (case r of Inl e \<Rightarrow> False | Inr d \<Rightarrow> sublist t d)"



section \<open>The steps of the function\<close>

lemma parse_rows_connector_mappings:
  "connector_mappings (parse_rows rows s) = connector_mappings s"
  by (induction rows arbitrary: s) (simp_all add: parse_row_def)

lemma parse_rows_tcl_content: "tcl_content (parse_rows rows s) = tcl_content s"
  by (induction rows arbitrary: s) (simp_all add: parse_row_def)

lemma parse_rows_var_connector: "var_connector (parse_rows rows s) = var_connector s"
  by (induction rows arbitrary: s) (simp_all add: parse_row_def)

lemma parse_rows_io_mappings:
  "io_mappings (parse_rows rows s) =
     io_mappings s @ map mapping_of_row (filter (\<lambda>row. 4 \<le> length row) rows)"
  by (induction rows arbitrary: s) (simp_all add: parse_row_def)

lemma bind_mappings_connector_mappings:
  "connector_mappings (bind_mappings ms s) = connector_mappings s"
  by (induction ms arbitrary: s) (simp_all add: bind_mapping_def)

lemma bind_mappings_tcl_content: "tcl_content (bind_mappings ms s) = tcl_content s"
  by (induction ms arbitrary: s) (simp_all add: bind_mapping_def)

lemma bind_mappings_snoc:
  "bind_mappings (ms @ [m]) s = bind_mapping m (bind_mappings ms s)"
  by (induction ms arbitrary: s) simp_all

lemma bind_mappings_vars:
  assumes "ms \<noteq> []"
  shows "var_io_name (bind_mappings ms s) = Some (io_name (last ms))"
    and "var_connector (bind_mappings ms s) = Some (prodigy_connector (last ms))"
    and "var_pin_no (bind_mappings ms s) = Some (pin_no (last ms))"
    and "var_io_voltage (bind_mappings ms s) = Some (io_voltage (last ms))"
proof -
  from assms obtain ms' m where ms: "ms = ms' @ [m]"
    by (cases ms rule: rev_cases) auto
  show "var_io_name (bind_mappings ms s) = Some (io_name (last ms))"
    by (simp add: ms bind_mappings_snoc bind_mapping_def)
  show "var_connector (bind_mappings ms s) = Some (prodigy_connector (last ms))"
    by (simp add: ms bind_mappings_snoc bind_mapping_def)
  show "var_pin_no (bind_mappings ms s) = Some (pin_no (last ms))"
    by (simp add: ms bind_mappings_snoc bind_mapping_def)
  show "var_io_voltage (bind_mappings ms s) = Some (io_voltage (last ms))"
    by (simp add: ms bind_mappings_snoc bind_mapping_def)
qed

lemma lookup_and_emit_connector_mappings:
  "lookup_and_emit s = Inr s' \<Longrightarrow> connector_mappings s' = connector_mappings s"
  by (auto simp: lookup_and_emit_def emit_error_def emit_resolved_def and_then_def
        read_var_def split: option.splits sum.splits)

lemma lookup_and_emit_unbound:
  "var_connector s = None \<Longrightarrow> lookup_and_emit s = Inl (UnboundLocalError ''connector'')"
  by (simp add: lookup_and_emit_def and_then_def read_var_def)

lemma lookup_and_emit_bound:
  assumes "var_io_name s = Some (row ! 0)" and "var_connector s = Some (row ! 1)"
    and "var_pin_no s = Some (row ! 2)" and "var_io_voltage s = Some (row ! 3)"
  shows "lookup_and_emit s =
           Inr (s\<lparr> tcl_content := tcl_content s @ block_lines (connector_mappings s) row \<rparr>)"
  using assms
  by (simp add: lookup_and_emit_def emit_error_def emit_resolved_def and_then_def
        read_var_def block_lines_def split: option.splits)

lemma generate_unbound:
  "generate_vivado_io False csv_reader csv_data cm = (Inl (NameError ''io''), cm)"
  by (simp add: generate_vivado_io_def new_frame_def)

lemma generate_keeps_map: "snd (generate_vivado_io io_bound csv_reader csv_data cm) = cm"
  by (auto simp: generate_vivado_io_def Let_def bind_mappings_connector_mappings
        parse_rows_connector_mappings new_frame_def
        dest: lookup_and_emit_connector_mappings split: sum.splits)

lemma generate_no_record:
  assumes "filter (\<lambda>row. 4 \<le> length row) (csv_reader csv_data) = []"
  shows "fst (generate_vivado_io True csv_reader csv_data cm) =
           Inl (UnboundLocalError ''connector'')"
proof -
  let ?s1 = "parse_rows (csv_reader csv_data) (new_frame cm)"
  have io: "io_mappings ?s1 = []"
    by (simp add: parse_rows_io_mappings assms new_frame_def)
  have "var_connector ?s1 = None"
    by (simp add: parse_rows_var_connector new_frame_def)
  then show ?thesis
    by (simp add: generate_vivado_io_def Let_def io lookup_and_emit_unbound)
qed

lemma generate_last_record:
  assumes "filter (\<lambda>row. 4 \<le> length row) (csv_reader csv_data) = earlier @ [row]"
  shows "fst (generate_vivado_io True csv_reader csv_data cm) =
           Inr (join ''\<newline>'' (header_lines @ block_lines cm row))"
proof -
  define s1 where "s1 = parse_rows (csv_reader csv_data) (new_frame cm)"
  define s2 where "s2 = s1\<lparr> tcl_content := tcl_content s1 @ [header_lines ! 0] \<rparr>"
  define s3 where "s3 = s2\<lparr> tcl_content := tcl_content s2 @ [header_lines ! 1] \<rparr>"
  define s4 where "s4 = bind_mappings (io_mappings s3) s3"
  define ms where "ms = map mapping_of_row (earlier @ [row])"
  have io: "io_mappings s3 = ms"
    by (simp add: s3_def s2_def s1_def parse_rows_io_mappings assms new_frame_def ms_def)
  have ne: "ms \<noteq> []" and la: "last ms = mapping_of_row row"
    by (simp_all add: ms_def)
  have vars: "var_io_name s4 = Some (row ! 0)" "var_connector s4 = Some (row ! 1)"
    "var_pin_no s4 = Some (row ! 2)" "var_io_voltage s4 = Some (row ! 3)"
    using bind_mappings_vars [OF ne, of s3] by (simp_all add: s4_def io la mapping_of_row_def)
  have cm4: "connector_mappings s4 = cm"
    by (simp add: s4_def s3_def s2_def s1_def bind_mappings_connector_mappings
          parse_rows_connector_mappings new_frame_def)
  have tc4: "tcl_content s4 = header_lines"
    by (simp add: s4_def s3_def s2_def s1_def bind_mappings_tcl_content
          parse_rows_tcl_content new_frame_def header_lines_def)
  have "lookup_and_emit s4 = Inr (s4\<lparr> tcl_content := header_lines @ block_lines cm row \<rparr>)"
    using lookup_and_emit_bound [OF vars] by (simp only: cm4 tc4)
  moreover have "generate_vivado_io True csv_reader csv_data cm =
      (case lookup_and_emit s4 of
         Inl e \<Rightarrow> (Inl e, connector_mappings s4)
       | Inr s5 \<Rightarrow> (Inr (join ''\<newline>'' (tcl_content s5)), connector_mappings s5))"
    by (simp only: generate_vivado_io_def Let_def if_True s1_def s2_def s3_def s4_def)
  ultimately show ?thesis
    by simp
qed



text \<open>
  A block reads the first four fields of its row only, so the outcome of a call is fixed
  by the rows of at least four fields, each cut to four.
\<close>

lemma block_lines_take:
  assumes "4 \<le> length row" and "4 \<le> length row'" and "take 4 row = take 4 row'"
  shows "block_lines cm row = block_lines cm row'"
proof -
  have "row ! i = row' ! i" if "i < 4" for i
  proof -
    have "row ! i = take 4 row ! i" using that by simp
    also have "\<dots> = row' ! i" using that assms(3) by simp
    finally show ?thesis .
  qed
  then have "row ! 0 = row' ! 0" "row ! 1 = row' ! 1" "row ! 2 = row' ! 2" "row ! 3 = row' ! 3"
    by simp_all
  then show ?thesis
    unfolding block_lines_def by (simp only:)
qed

lemma generate_depends_on:
  assumes "map (take 4) (filter (\<lambda>row. 4 \<le> length row) (r1 a)) =
           map (take 4) (filter (\<lambda>row. 4 \<le> length row) (r2 b))"
  shows "generate_vivado_io io_bound r1 a cm = generate_vivado_io io_bound r2 b cm"
proof (cases io_bound)
  case False
  then show ?thesis
    by (simp add: generate_unbound)
next
  case True
  define xs where "xs = filter (\<lambda>row. 4 \<le> length row) (r1 a)"
  define ys where "ys = filter (\<lambda>row. 4 \<le> length row) (r2 b)"
  have eq: "map (take 4) xs = map (take 4) ys"
    using assms by (simp add: xs_def ys_def)
  have "fst (generate_vivado_io True r1 a cm) = fst (generate_vivado_io True r2 b cm)"
  proof (cases xs rule: rev_cases)
    case Nil
    with eq have "ys = []" by simp
    with Nil show ?thesis
      by (simp add: generate_no_record xs_def ys_def)
  next
    case (snoc xs' x)
    with eq have "ys \<noteq> []" by auto
    then obtain ys' y where ys: "ys = ys' @ [y]"
      by (cases ys rule: rev_cases) auto
    from eq snoc ys have t: "take 4 x = take 4 y"
      by simp
    have "x \<in> set xs" "y \<in> set ys"
      by (simp_all add: snoc ys)
    then have len: "4 \<le> length x" "4 \<le> length y"
      by (simp_all add: xs_def ys_def)
    have "fst (generate_vivado_io True r1 a cm) =
            Inr (join ''\<newline>'' (header_lines @ block_lines cm x))"
      using snoc by (intro generate_last_record) (simp add: xs_def)
    moreover have "fst (generate_vivado_io True r2 b cm) =
            Inr (join ''\<newline>'' (header_lines @ block_lines cm y))"
      using ys by (intro generate_last_record) (simp add: ys_def)
    ultimately show ?thesis
      by (simp add: block_lines_take [OF len t])
  qed
  with True show ?thesis
    by (simp add: prod_eq_iff generate_keeps_map)
qed





section \<open>The claims\<close>

subsection \<open>C1: the resolved block\<close>




subsection \<open>C2: one block per record\<close>

text \<open>
  Claim C2 says that the document has, after the header, exactly one block for each record
  of at least 4 fields, in the order of the records. Take the two records
  \<^verbatim>\<open>CLK_IN,J1,A1,3.3V\<close> and \<^verbatim>\<open>DATA0,J1,A2,1.8V\<close>, which both resolve. With \<^verbatim>\<open>io\<close>
  bound, the source appends a block once, after its second loop: the call returns the
  header and the block of the second record only. With the file as it stands the call
  raises \<^verbatim>\<open>NameError\<close> and returns no document.
\<close>

theorem two_records_one_block:
  "fst (generate_vivado_io True plain_reader ''CLK_IN,J1,A1,3.3V\<newline>DATA0,J1,A2,1.8V'' example_map) =
     Inr ''# Automatically generated Vivado constraints file\<newline># Generated from I/O mapping CSV data\<newline>\<newline># DATA0 - J1.A2 - Data (34)\<newline>set_property PACKAGE_PIN AC13 [get_ports DATA0]\<newline>set_property IOSTANDARD LVCMOS1.8 [get_ports DATA0]\<newline>''
   \<and> fst (generate_vivado_io module_binds_io plain_reader
           ''CLK_IN,J1,A1,3.3V\<newline>DATA0,J1,A2,1.8V'' example_map) = Inl (NameError ''io'')"
  using generate_last_record [of plain_reader "''CLK_IN,J1,A1,3.3V\<newline>DATA0,J1,A2,1.8V''"
      "[[''CLK_IN'', ''J1'', ''A1'', ''3.3V'']]" "[''DATA0'', ''J1'', ''A2'', ''1.8V'']" example_map]
  by (simp add: plain_reader_def text_lines_def example_map_def header_lines_def
        block_lines_def resolved_lines_def replace_def module_binds_io_def generate_unbound)

subsection \<open>C3: the error block\<close>

text \<open>
  Claim C3 says that every record of at least 4 fields that does not resolve has exactly one
  error block in the document, naming the signal and the unresolved pair. Take the records
  \<^verbatim>\<open>RST,J2,B4,1.8V\<close>, which does not resolve, and \<^verbatim>\<open>CLK_IN,J1,A1,3.3V\<close>, which does. With
  \<^verbatim>\<open>io\<close> bound, the call returns a document that names \<open>CLK_IN\<close> and nowhere names
  \<open>RST\<close>. With the file as it stands the call raises \<^verbatim>\<open>NameError\<close> and returns no
  document.
\<close>

theorem unresolved_earlier_record_unreported:
  "contains_text ''CLK_IN''
     (fst (generate_vivado_io True plain_reader ''RST,J2,B4,1.8V\<newline>CLK_IN,J1,A1,3.3V'' example_map))
   \<and> \<not> contains_text ''RST''
       (fst (generate_vivado_io True plain_reader ''RST,J2,B4,1.8V\<newline>CLK_IN,J1,A1,3.3V'' example_map))
   \<and> fst (generate_vivado_io module_binds_io plain_reader
           ''RST,J2,B4,1.8V\<newline>CLK_IN,J1,A1,3.3V'' example_map) = Inl (NameError ''io'')"
proof -
  have "fst (generate_vivado_io True plain_reader ''RST,J2,B4,1.8V\<newline>CLK_IN,J1,A1,3.3V'' example_map) =
     Inr ''# Automatically generated Vivado constraints file\<newline># Generated from I/O mapping CSV data\<newline>\<newline># CLK_IN - J1.A1 - Clock Input (34)\<newline>set_property PACKAGE_PIN AB12 [get_ports CLK_IN]\<newline>set_property IOSTANDARD LVCMOS3.3 [get_ports CLK_IN]\<newline>''"
    using generate_last_record [of plain_reader "''RST,J2,B4,1.8V\<newline>CLK_IN,J1,A1,3.3V''"
      "[[''RST'', ''J2'', ''B4'', ''1.8V'']]" "[''CLK_IN'', ''J1'', ''A1'', ''3.3V'']" example_map]
    by (simp add: plain_reader_def text_lines_def example_map_def header_lines_def
        block_lines_def resolved_lines_def replace_def)
  then show ?thesis
    by (simp add: contains_text_def sublist_code(3) prefix_code(2)
        module_binds_io_def generate_unbound)
qed

subsection \<open>C4: totality\<close>

text \<open>
  Claim C4 says that the function always returns a document, also when the input has no
  record of at least 4 fields. Take the empty text, and the one record \<^verbatim>\<open>a,b,c\<close>. With
  \<^verbatim>\<open>io\<close> bound, no statement assigns \<^verbatim>\<open>connector\<close> before the \<^verbatim>\<open>if\<close> reads it, and the
  call raises \<^verbatim>\<open>UnboundLocalError\<close>, whatever the connector map. With the file as it
  stands the call raises \<^verbatim>\<open>NameError\<close> at line 22, on these inputs as on every other.
\<close>

theorem no_record_raises:
  "fst (generate_vivado_io True plain_reader '''' cm) = Inl (UnboundLocalError ''connector'')
   \<and> fst (generate_vivado_io True plain_reader ''a,b,c'' cm) =
       Inl (UnboundLocalError ''connector'')
   \<and> fst (generate_vivado_io module_binds_io plain_reader '''' cm) = Inl (NameError ''io'')
   \<and> fst (generate_vivado_io module_binds_io plain_reader ''a,b,c'' cm) = Inl (NameError ''io'')
   \<and> fst (generate_vivado_io module_binds_io csv_reader csv_data cm) = Inl (NameError ''io'')"
  by (simp add: generate_no_record plain_reader_def text_lines_def
        module_binds_io_def generate_unbound)

subsection \<open>C5: short records\<close>

text \<open>
  Claim C5: a record with fewer than 4 fields is skipped and contributes nothing. The
  outcome of a call on an input with such a record is the outcome on the input without it,
  whether \<^verbatim>\<open>io\<close> is bound or not.
\<close>

theorem short_record_skipped:
  assumes "length row < 4"
    and "csv_reader a = before @ row # after"
    and "csv_reader b = before @ after"
  shows "generate_vivado_io io_bound csv_reader a cm = generate_vivado_io io_bound csv_reader b cm"
  using assms by (intro generate_depends_on) simp

text \<open>The record \<^verbatim>\<open>X,J9\<close> between two records of four fields.\<close>

theorem short_record_skipped_witness:
  "length [''X'', ''J9''] < 4
   \<and> plain_reader ''CLK_IN,J1,A1,3.3V\<newline>X,J9\<newline>RST,J2,B4,1.8V'' =
       [[''CLK_IN'', ''J1'', ''A1'', ''3.3V'']] @ [''X'', ''J9''] # [[''RST'', ''J2'', ''B4'', ''1.8V'']]
   \<and> plain_reader ''CLK_IN,J1,A1,3.3V\<newline>RST,J2,B4,1.8V'' =
       [[''CLK_IN'', ''J1'', ''A1'', ''3.3V'']] @ [[''RST'', ''J2'', ''B4'', ''1.8V'']]
   \<and> generate_vivado_io True plain_reader ''CLK_IN,J1,A1,3.3V\<newline>X,J9\<newline>RST,J2,B4,1.8V'' example_map =
       generate_vivado_io True plain_reader ''CLK_IN,J1,A1,3.3V\<newline>RST,J2,B4,1.8V'' example_map"
proof -
  have h1: "length [''X'', ''J9''] < 4" by simp
  have h2: "plain_reader ''CLK_IN,J1,A1,3.3V\<newline>X,J9\<newline>RST,J2,B4,1.8V'' =
       [[''CLK_IN'', ''J1'', ''A1'', ''3.3V'']] @ [''X'', ''J9''] # [[''RST'', ''J2'', ''B4'', ''1.8V'']]"
    by (simp add: plain_reader_def text_lines_def)
  have h3: "plain_reader ''CLK_IN,J1,A1,3.3V\<newline>RST,J2,B4,1.8V'' =
       [[''CLK_IN'', ''J1'', ''A1'', ''3.3V'']] @ [[''RST'', ''J2'', ''B4'', ''1.8V'']]"
    by (simp add: plain_reader_def text_lines_def)
  from h1 h2 h3 have "generate_vivado_io True plain_reader ''CLK_IN,J1,A1,3.3V\<newline>X,J9\<newline>RST,J2,B4,1.8V'' example_map =
       generate_vivado_io True plain_reader ''CLK_IN,J1,A1,3.3V\<newline>RST,J2,B4,1.8V'' example_map"
    by (rule short_record_skipped)
  with h1 h2 h3 show ?thesis by (intro conjI)
qed

subsection \<open>C7: fields beyond the fourth\<close>

text \<open>
  Claim C7: the fields of a record beyond the fourth are ignored. The outcome of a call on
  an input with a record of more than 4 fields is the outcome on the input where that
  record is cut to its first 4 fields, whether \<^verbatim>\<open>io\<close> is bound or not.
\<close>

theorem extra_fields_ignored:
  assumes "4 < length row"
    and "csv_reader a = before @ row # after"
    and "csv_reader b = before @ take 4 row # after"
  shows "generate_vivado_io io_bound csv_reader a cm = generate_vivado_io io_bound csv_reader b cm"
  using assms by (intro generate_depends_on) simp

text \<open>A record of six fields.\<close>

theorem extra_fields_ignored_witness:
  "4 < length [''SIG'', ''J1'', ''A2'', ''1.8V'', ''spare'', ''note'']
   \<and> plain_reader ''SIG,J1,A2,1.8V,spare,note'' =
       [] @ [''SIG'', ''J1'', ''A2'', ''1.8V'', ''spare'', ''note''] # []
   \<and> plain_reader ''SIG,J1,A2,1.8V'' =
       [] @ take 4 [''SIG'', ''J1'', ''A2'', ''1.8V'', ''spare'', ''note''] # []
   \<and> generate_vivado_io True plain_reader ''SIG,J1,A2,1.8V,spare,note'' example_map =
       generate_vivado_io True plain_reader ''SIG,J1,A2,1.8V'' example_map"
proof -
  have h1: "4 < length [''SIG'', ''J1'', ''A2'', ''1.8V'', ''spare'', ''note'']" by simp
  have h2: "plain_reader ''SIG,J1,A2,1.8V,spare,note'' =
       [] @ [''SIG'', ''J1'', ''A2'', ''1.8V'', ''spare'', ''note''] # []"
    by (simp add: plain_reader_def text_lines_def)
  have h3: "plain_reader ''SIG,J1,A2,1.8V'' =
       [] @ take 4 [''SIG'', ''J1'', ''A2'', ''1.8V'', ''spare'', ''note''] # []"
    by (simp add: plain_reader_def text_lines_def)
  from h1 h2 h3 have "generate_vivado_io True plain_reader ''SIG,J1,A2,1.8V,spare,note'' example_map =
       generate_vivado_io True plain_reader ''SIG,J1,A2,1.8V'' example_map"
    by (rule extra_fields_ignored)
  with h1 h2 h3 show ?thesis by (intro conjI)
qed

subsection \<open>C8: the connector map is only read\<close>

text \<open>
  Claim C8: \<^verbatim>\<open>generate_vivado_io\<close> never mutates the connector map. For every reader,
  text and map, whether \<^verbatim>\<open>io\<close> is bound or not and whether the call returns or raises,
  the connector map the caller holds after the call is the one it passed.
\<close>

theorem connector_map_unchanged:
  "snd (generate_vivado_io io_bound csv_reader csv_data cm) = cm"
  by (rule generate_keeps_map)

subsection \<open>C9: the block of the last record\<close>



subsection \<open>C10: every V is removed\<close>



end
